theory Spec2Isabelle
  imports Complex_Main
begin

section \<open>Dense arrays and the array primitives the layers call\<close>

text \<open>
  The module \<^verbatim>\<open>equinox/nn/_normalisation.py\<close> defines two layers, \<^verbatim>\<open>LayerNorm\<close> and
  \<^verbatim>\<open>GroupNorm\<close>. Both consume a dense array. An array is its shape together with its
  elements in row-major order; it is well formed when the number of elements is the
  product of the shape.

  Arithmetic is exact: an input element is a real number. A computed element is a
  \<open>real option\<close>, where \<open>None\<close> stands for a value that is not a finite number (the NaN of
  \<open>0 / 0\<close>, the infinity of \<open>1 / sqrt 0\<close>, the NaN of the square root of a negative number).
  Every arithmetic operation of the layers maps a non-finite operand to a non-finite
  result, so \<open>None\<close> is absorbing. Rounding and overflow are not part of this model; the
  normalisation is given a second time over float32 numbers further down, for the
  property that depends on them.
\<close>

datatype error =
    ValueError string
  | TypeError
  | ZeroDivisionError
  | IndexError

type_synonym fval = "real option"

record 'a ndarray =
  shape :: "nat list"
  data :: "'a list"

definition wf_array :: "'a ndarray \<Rightarrow> bool" where
  "wf_array x \<longleftrightarrow> length (data x) = prod_list (shape x)"

definition lift2 :: "(real \<Rightarrow> real \<Rightarrow> real) \<Rightarrow> fval \<Rightarrow> fval \<Rightarrow> fval" where
  "lift2 f a b = (case a of None \<Rightarrow> None | Some u \<Rightarrow> (case b of None \<Rightarrow> None | Some v \<Rightarrow> Some (f u v)))"

definition fadd :: "fval \<Rightarrow> fval \<Rightarrow> fval" where
  "fadd = lift2 (+)"

definition fsub :: "fval \<Rightarrow> fval \<Rightarrow> fval" where
  "fsub = lift2 (-)"

definition fmul :: "fval \<Rightarrow> fval \<Rightarrow> fval" where
  "fmul = lift2 (*)"

text \<open>\<^verbatim>\<open>jnp.mean(xs)\<close>: the sum over the element count; \<open>0 / 0\<close> on no elements.\<close>

definition jnp_mean :: "real list \<Rightarrow> fval" where
  "jnp_mean xs = (if xs = [] then None else Some (sum_list xs / real (length xs)))"

text \<open>
  \<^verbatim>\<open>jnp.var(xs)\<close> with its default \<^verbatim>\<open>ddof=0\<close>: the squared deviations from the mean,
  summed and divided by the element count.
\<close>

definition jnp_var :: "real list \<Rightarrow> fval" where
  "jnp_var xs =
     (case jnp_mean xs of
        None \<Rightarrow> None
      | Some mu \<Rightarrow> Some (sum_list (map (\<lambda>v. (v - mu) * (v - mu)) xs) / real (length xs)))"

text \<open>\<^verbatim>\<open>jnp.maximum(c, v)\<close> with a finite constant \<open>c\<close>; a NaN operand gives NaN.\<close>

definition jnp_maximum :: "real \<Rightarrow> fval \<Rightarrow> fval" where
  "jnp_maximum c v = (case v of None \<Rightarrow> None | Some u \<Rightarrow> Some (max c u))"

text \<open>
  \<^verbatim>\<open>jax.lax.rsqrt(v)\<close>: the reciprocal square root. It is infinite at \<open>0\<close> and NaN below
  \<open>0\<close>, hence finite exactly on the positive numbers.
\<close>

definition rsqrt :: "fval \<Rightarrow> fval" where
  "rsqrt v = (case v of None \<Rightarrow> None | Some u \<Rightarrow> (if 0 < u then Some (1 / sqrt u) else None))"

text \<open>
  \<open>chunks k n xs\<close> cuts the first \<open>k\<close> consecutive blocks of \<open>n\<close> elements off \<open>xs\<close>: the
  rows \<^verbatim>\<open>y[0], ..., y[k-1]\<close> of an array of shape \<^verbatim>\<open>(k, ...)\<close> with \<open>n\<close> elements per row.
\<close>

fun chunks :: "nat \<Rightarrow> nat \<Rightarrow> 'a list \<Rightarrow> 'a list list" where
  "chunks 0 n xs = []"
| "chunks (Suc k) n xs = take n xs # chunks k n (drop n xs)"

subsection \<open>Broadcasting\<close>

text \<open>
  Two shapes are aligned at their last axes. Two aligned axes are compatible when they
  are equal or one of them is \<open>1\<close>; a missing leading axis counts as \<open>1\<close>.
  \<open>broadcast_dims\<close> works on the reversed shapes.
\<close>

fun broadcast_dims :: "nat list \<Rightarrow> nat list \<Rightarrow> nat list option" where
  "broadcast_dims [] ts = Some ts"
| "broadcast_dims (s # ss) [] = Some (s # ss)"
| "broadcast_dims (s # ss) (t # ts) =
     (if s = t \<or> t = 1 then map_option ((#) s) (broadcast_dims ss ts)
      else if s = 1 then map_option ((#) t) (broadcast_dims ss ts)
      else None)"

definition broadcast_shapes :: "nat list \<Rightarrow> nat list \<Rightarrow> nat list option" where
  "broadcast_shapes s t = map_option rev (broadcast_dims (rev s) (rev t))"

text \<open>
  \<open>broadcast_data s t xs\<close> repeats the elements \<open>xs\<close> of an array of shape \<open>s\<close> to the shape
  \<open>t\<close> of the same rank: an axis where the shapes differ has size \<open>1\<close> in \<open>s\<close> and is repeated.
\<close>

fun broadcast_data :: "nat list \<Rightarrow> nat list \<Rightarrow> 'a list \<Rightarrow> 'a list" where
  "broadcast_data (s # ss) (t # ts) xs =
     (if s = t then concat (map (broadcast_data ss ts) (chunks s (prod_list ss) xs))
      else concat (replicate t (broadcast_data ss ts xs)))"
| "broadcast_data ss ts xs = xs"

definition broadcast_to :: "'a ndarray \<Rightarrow> nat list \<Rightarrow> 'a list" where
  "broadcast_to a t =
     broadcast_data (replicate (length t - length (shape a)) 1 @ shape a) t (data a)"

text \<open>
  An elementwise binary operator (\<^verbatim>\<open>*\<close>, \<^verbatim>\<open>+\<close>) on two arrays: both are broadcast to
  the common shape; incompatible shapes raise.
\<close>

definition broadcast_binop ::
    "(fval \<Rightarrow> fval \<Rightarrow> fval) \<Rightarrow> fval ndarray \<Rightarrow> fval ndarray \<Rightarrow> error + fval ndarray" where
  "broadcast_binop f a b =
     (case broadcast_shapes (shape a) (shape b) of
        None \<Rightarrow> Inl TypeError
      | Some s \<Rightarrow> Inr \<lparr>shape = s, data = map2 f (broadcast_to a s) (broadcast_to b s)\<rparr>)"

definition finite_array :: "real ndarray \<Rightarrow> fval ndarray" where
  "finite_array a = \<lparr>shape = shape a, data = map Some (data a)\<rparr>"

subsection \<open>Allocation and reshaping\<close>

text \<open>
  The \<^verbatim>\<open>shape\<close> argument of \<^verbatim>\<open>LayerNorm\<close> is \<^verbatim>\<open>None\<close>, an integer or a sequence of
  integers.
\<close>

datatype shape_arg = NoShape | IntShape int | SeqShape "int list"

text \<open>
  \<^verbatim>\<open>jnp.ones(shape)\<close> and \<^verbatim>\<open>jnp.zeros(shape)\<close> are \<open>jnp_full 1\<close> and \<open>jnp_full 0\<close>. They raise
  when the shape is \<^verbatim>\<open>None\<close> or has a negative dimension.
\<close>

definition jnp_full :: "real \<Rightarrow> shape_arg \<Rightarrow> error + real ndarray" where
  "jnp_full v s =
     (case s of
        NoShape \<Rightarrow> Inl TypeError
      | IntShape n \<Rightarrow>
          (if n < 0 then Inl TypeError
           else Inr \<lparr>shape = [nat n], data = replicate (nat n) v\<rparr>)
      | SeqShape ns \<Rightarrow>
          (if list_ex (\<lambda>n. n < 0) ns then Inl TypeError
           else Inr \<lparr>shape = map nat ns, data = replicate (prod_list (map nat ns)) v\<rparr>))"

text \<open>
  \<^verbatim>\<open>x.reshape(*dims)\<close> keeps the elements and their order. It raises when the new shape
  holds another number of elements. A negative dimension raises too: a dimension \<open>-1\<close>
  asks for that dimension to be inferred, and where \<^verbatim>\<open>GroupNorm.__call__\<close> can pass one
  (a negative \<^verbatim>\<open>groups\<close>) the remaining dimensions admit no non-negative value for it.
\<close>

definition reshape :: "'a ndarray \<Rightarrow> int list \<Rightarrow> error + 'a ndarray" where
  "reshape x dims =
     (if list_ex (\<lambda>d. d < 0) dims then Inl TypeError
      else if prod_list (map nat dims) \<noteq> length (data x) then Inl TypeError
      else Inr \<lparr>shape = map nat dims, data = data x\<rparr>)"

text \<open>Python's \<^verbatim>\<open>a % b\<close> and \<^verbatim>\<open>a // b\<close> on integers: floor division, raising at \<open>b = 0\<close>.\<close>

definition py_mod :: "int \<Rightarrow> int \<Rightarrow> error + int" where
  "py_mod a b = (if b = 0 then Inl ZeroDivisionError else Inr (a mod b))"

definition py_floordiv :: "int \<Rightarrow> int \<Rightarrow> error + int" where
  "py_floordiv a b = (if b = 0 then Inl ZeroDivisionError else Inr (a div b))"

text \<open>
  Modelled from the spec: \<^verbatim>\<open>left_broadcast_to\<close> of \<^verbatim>\<open>equinox/_misc.py\<close>, the spec's
  BroadcastExpander. Given a parameter and a target shape it views the parameter with
  one trailing axis of size \<open>1\<close> for every further axis of the target, and computes
  nothing; the elementwise operator then broadcasts it.
\<close>

definition left_broadcast_to :: "'a ndarray \<Rightarrow> nat list \<Rightarrow> 'a ndarray" where
  "left_broadcast_to arr shp =
     \<lparr>shape = shape arr @ replicate (length shp - length (shape arr)) 1, data = data arr\<rparr>"

text \<open>
  The \<^verbatim>\<open>key\<close> argument of both layers is a random key or \<^verbatim>\<open>None\<close>; a key is
  modelled as a pair of numbers.
\<close>

type_synonym PRNGKey = "nat \<times> nat"

section \<open>LayerNorm\<close>

record LayerNorm =
  ln_shape :: shape_arg
  ln_eps :: real
  ln_use_weight :: bool
  ln_use_bias :: bool
  ln_weight :: "real ndarray option"
  ln_bias :: "real ndarray option"

definition deprecation_message :: string where
  "deprecation_message =
     ''LayerNorm(elementwise_affine=...) is deprecated in favour of LayerNorm(use_weight=...) and LayerNorm(use_bias=...)''"

text \<open>
  \<^verbatim>\<open>LayerNorm.__init__\<close>. The result is the list of warnings emitted, and the module or
  the exception raised. The warning is emitted before the parameters are allocated. The
  keyword arguments handed on to the base class are not modelled.
\<close>

definition LayerNorm_init ::
    "shape_arg \<Rightarrow> real \<Rightarrow> bool \<Rightarrow> bool \<Rightarrow> bool option \<Rightarrow> string list \<times> (error + LayerNorm)" where
  "LayerNorm_init shp eps use_weight use_bias elementwise_affine =
     (let (use_weight, use_bias, warnings) =
            (case elementwise_affine of
               Some b \<Rightarrow> (b, b, [deprecation_message])
             | None \<Rightarrow> (use_weight, use_bias, []));
          weight = (if use_weight then map_sum id Some (jnp_full 1 shp) else Inr None)
      in (warnings,
          case weight of
            Inl e \<Rightarrow> Inl e
          | Inr w \<Rightarrow>
              (case (if use_bias then map_sum id Some (jnp_full 0 shp) else Inr None) of
                 Inl e \<Rightarrow> Inl e
               | Inr b \<Rightarrow>
                   Inr \<lparr>ln_shape = shp, ln_eps = eps, ln_use_weight = use_weight,
                        ln_use_bias = use_bias, ln_weight = w, ln_bias = b\<rparr>)))"

text \<open>Lines 103 to 107 of \<^verbatim>\<open>LayerNorm.__call__\<close>: the value before the affine step.\<close>

definition LayerNorm_normalised :: "real \<Rightarrow> real ndarray \<Rightarrow> fval ndarray" where
  "LayerNorm_normalised eps x =
     (let mean = jnp_mean (data x);
          variance = jnp_var (data x);
          variance = jnp_maximum 0 variance;
          inv = rsqrt (fadd variance (Some eps))
      in \<lparr>shape = shape x, data = map (\<lambda>v. fmul (fsub (Some v) mean) inv) (data x)\<rparr>)"

text \<open>
  Lines 108 to 112: the affine step. A flag that is set while its parameter is \<^verbatim>\<open>None\<close>
  makes the operator raise.
\<close>

definition LayerNorm_affine :: "LayerNorm \<Rightarrow> fval ndarray \<Rightarrow> error + fval ndarray" where
  "LayerNorm_affine m out =
     (case (if ln_use_weight m
            then (case ln_weight m of
                    None \<Rightarrow> Inl TypeError
                  | Some w \<Rightarrow> broadcast_binop fmul (finite_array w) out)
            else Inr out) of
        Inl e \<Rightarrow> Inl e
      | Inr out \<Rightarrow>
          (if ln_use_bias m
           then (case ln_bias m of
                   None \<Rightarrow> Inl TypeError
                 | Some b \<Rightarrow> broadcast_binop fadd out (finite_array b))
           else Inr out))"

definition LayerNorm_call :: "LayerNorm \<Rightarrow> real ndarray \<Rightarrow> PRNGKey option \<Rightarrow> error + fval ndarray" where
  "LayerNorm_call m x key = LayerNorm_affine m (LayerNorm_normalised (ln_eps m) x)"

section \<open>GroupNorm\<close>

record GroupNorm =
  gn_groups :: int
  gn_channels :: "int option"
  gn_eps :: real
  gn_channelwise_affine :: bool
  gn_weight :: "real ndarray option"
  gn_bias :: "real ndarray option"

definition divide_message :: string where
  "divide_message = ''The number of groups must divide the number of channels.''"

definition channels_message :: string where
  "channels_message =
     ''The number of channels should be specified if `channelwise_affine=True`''"

text \<open>\<^verbatim>\<open>GroupNorm.__init__\<close>: the two checks in the order of the source, then the fields.\<close>

definition GroupNorm_init :: "int \<Rightarrow> int option \<Rightarrow> real \<Rightarrow> bool \<Rightarrow> error + GroupNorm" where
  "GroupNorm_init groups channels eps channelwise_affine =
     (case (case channels of
              None \<Rightarrow> Inr False
            | Some c \<Rightarrow> map_sum id (\<lambda>r. r \<noteq> 0) (py_mod c groups)) of
        Inl e \<Rightarrow> Inl e
      | Inr True \<Rightarrow> Inl (ValueError divide_message)
      | Inr False \<Rightarrow>
          (case channels of
             None \<Rightarrow>
               (if channelwise_affine then Inl (ValueError channels_message)
                else Inr \<lparr>gn_groups = groups, gn_channels = channels, gn_eps = eps,
                          gn_channelwise_affine = channelwise_affine,
                          gn_weight = None, gn_bias = None\<rparr>)
           | Some c \<Rightarrow>
               (if channelwise_affine
                then (case jnp_full 1 (IntShape c) of
                        Inl e \<Rightarrow> Inl e
                      | Inr w \<Rightarrow>
                          (case jnp_full 0 (IntShape c) of
                             Inl e \<Rightarrow> Inl e
                           | Inr b \<Rightarrow>
                               Inr \<lparr>gn_groups = groups, gn_channels = channels, gn_eps = eps,
                                    gn_channelwise_affine = channelwise_affine,
                                    gn_weight = Some w, gn_bias = Some b\<rparr>))
                else Inr \<lparr>gn_groups = groups, gn_channels = channels, gn_eps = eps,
                          gn_channelwise_affine = channelwise_affine,
                          gn_weight = None, gn_bias = None\<rparr>)))"

text \<open>
  Lines 193 to 200 of \<^verbatim>\<open>GroupNorm.__call__\<close>. \<^verbatim>\<open>x.shape[0]\<close> raises on an array without
  axes. The reshaped array \<open>y\<close> has shape \<^verbatim>\<open>(groups, per, *rest)\<close>, so it has one row of
  \<open>per * prod_list rest\<close> elements per group; \<^verbatim>\<open>jax.vmap\<close> applies \<^verbatim>\<open>jnp.mean\<close> and
  \<^verbatim>\<open>jnp.var\<close> to each row on its own, and the subtraction and the product broadcast a
  row's mean and inverse deviation over that row.
\<close>

definition GroupNorm_normalised :: "int \<Rightarrow> real \<Rightarrow> real ndarray \<Rightarrow> error + fval ndarray" where
  "GroupNorm_normalised groups eps x =
     (case shape x of
        [] \<Rightarrow> Inl IndexError
      | channels # rest \<Rightarrow>
          (case py_floordiv (int channels) groups of
             Inl e \<Rightarrow> Inl e
           | Inr per \<Rightarrow>
               (case reshape x (groups # per # map int rest) of
                  Inl e \<Rightarrow> Inl e
                | Inr y \<Rightarrow>
                    (let rows = chunks (nat groups) (nat per * prod_list rest) (data y);
                         mean = map jnp_mean rows;
                         variance = map jnp_var rows;
                         variance = map (jnp_maximum 0) variance;
                         inv = map (\<lambda>v. rsqrt (fadd v (Some eps))) variance;
                         out = map (\<lambda>(row, mu, iv). map (\<lambda>v. fmul (fsub (Some v) mu) iv) row)
                                 (zip rows (zip mean inv))
                     in Inr \<lparr>shape = shape x, data = concat out\<rparr>))))"

text \<open>Lines 201 to 205: the channel-wise affine step.\<close>

definition GroupNorm_affine :: "GroupNorm \<Rightarrow> fval ndarray \<Rightarrow> error + fval ndarray" where
  "GroupNorm_affine m out =
     (if gn_channelwise_affine m
      then (case (gn_weight m, gn_bias m) of
              (Some w, Some b) \<Rightarrow>
                (let weight = left_broadcast_to (finite_array w) (shape out);
                     bias = left_broadcast_to (finite_array b) (shape out)
                 in case broadcast_binop fmul weight out of
                      Inl e \<Rightarrow> Inl e
                    | Inr scaled \<Rightarrow> broadcast_binop fadd scaled bias)
            | _ \<Rightarrow> Inl TypeError)
      else Inr out)"

definition GroupNorm_call :: "GroupNorm \<Rightarrow> real ndarray \<Rightarrow> PRNGKey option \<Rightarrow> error + fval ndarray" where
  "GroupNorm_call m x key =
     (case GroupNorm_normalised (gn_groups m) (gn_eps m) x of
        Inl e \<Rightarrow> Inl e
      | Inr out \<Rightarrow> GroupNorm_affine m out)"

section \<open>Reference definitions\<close>

text \<open>
  The statistics in the words of the layers' documentation: the mean over every element,
  and the population variance, the squared deviations summed and divided by the element
  count. \<open>normalise_spec\<close> is \<open>(x - mean) * inv\<close> with \<open>inv = 1 / sqrt (variance + eps)\<close>
  and the variance floored at \<open>0\<close>; it is a finite number exactly when the floored
  variance plus \<open>eps\<close> is positive. On no elements there is nothing to normalise and the
  result is empty, whatever the statistics are taken to be.
\<close>

definition pop_mean :: "real list \<Rightarrow> real" where
  "pop_mean xs = sum_list xs / real (length xs)"

definition pop_variance :: "real list \<Rightarrow> real" where
  "pop_variance xs = (\<Sum>v\<leftarrow>xs. (v - pop_mean xs)\<^sup>2) / real (length xs)"

definition normalise_spec :: "real \<Rightarrow> real list \<Rightarrow> fval list" where
  "normalise_spec eps xs =
     map (\<lambda>v. if 0 < max 0 (pop_variance xs) + eps
              then Some ((v - pop_mean xs) * (1 / sqrt (max 0 (pop_variance xs) + eps)))
              else None) xs"

text \<open>
  The affine step on elements: an enabled weight multiplies elementwise, an enabled bias is
  added elementwise.
\<close>

definition LayerNorm_spec :: "real \<Rightarrow> real list option \<Rightarrow> real list option \<Rightarrow> real list \<Rightarrow> fval list" where
  "LayerNorm_spec eps weight bias xs =
     (let y = normalise_spec eps xs;
          y = (case weight of None \<Rightarrow> y | Some w \<Rightarrow> map2 (\<lambda>w v. fmul (Some w) v) w y)
      in case bias of None \<Rightarrow> y | Some b \<Rightarrow> map2 (\<lambda>v b. fadd v (Some b)) y b)"

text \<open>
  \<open>group_slice n g xs\<close> is block \<open>g\<close> of \<open>xs\<close> when \<open>xs\<close> is cut into blocks of \<open>n\<close>
  elements: with \<open>n\<close> the element count of a group, the slice of group \<open>g\<close>.
\<close>

definition group_slice :: "nat \<Rightarrow> nat \<Rightarrow> 'a list \<Rightarrow> 'a list" where
  "group_slice n g xs = take n (drop (g * n) xs)"

text \<open>
  The expression both layers apply to the elements that share one mean and one variance.
\<close>

definition normalise_row :: "real \<Rightarrow> real list \<Rightarrow> fval list" where
  "normalise_row eps row =
     map (\<lambda>v. fmul (fsub (Some v) (jnp_mean row))
                (rsqrt (fadd (jnp_maximum 0 (jnp_var row)) (Some eps)))) row"

text \<open>
  The two rejections of \<^verbatim>\<open>GroupNorm.__init__\<close> as the specification words them: the
  channel count is known and the group count does not divide it, or it is unknown while
  the affine parameters are requested.
\<close>

definition config_error_claimed :: "int \<Rightarrow> int option \<Rightarrow> bool \<Rightarrow> bool" where
  "config_error_claimed groups channels channelwise_affine =
     (case channels of
        Some c \<Rightarrow> c mod groups \<noteq> 0
      | None \<Rightarrow> channelwise_affine)"

text \<open>
  An affine parameter of \<^verbatim>\<open>LayerNorm\<close> is enabled when one of the flags is set, the
  deprecated flag deciding both when it is given.
\<close>

definition affine_enabled :: "bool \<Rightarrow> bool \<Rightarrow> bool option \<Rightarrow> bool" where
  "affine_enabled use_weight use_bias elementwise_affine =
     (case elementwise_affine of None \<Rightarrow> use_weight \<or> use_bias | Some b \<Rightarrow> b)"

section \<open>The normalisation in float32 arithmetic\<close>

text \<open>
  The arrays the layers receive hold 32-bit floating-point numbers by default, and every
  operation of lines 103 to 107 and 193 to 200 rounds its result to that format. This
  section repeats these lines over such numbers. A value is a finite real, an infinity or
  NaN. \<open>round32\<close> rounds a real to the nearest number with a 24-bit significand and an
  exponent of at least \<open>-126\<close>, a tie going to the even significand, and a result beyond the
  largest finite number becoming an infinity. Negative zero is not distinguished from
  zero; no operation below is applied where the two differ.
\<close>

datatype f32 = Finite real | PInf | NInf | NaN

definition round_even :: "real \<Rightarrow> int" where
  "round_even y =
     (let f = \<lfloor>y\<rfloor>
      in if y - of_int f < 1 / 2 then f
         else if 1 / 2 < y - of_int f then f + 1
         else if even f then f else f + 1)"

definition max_f32 :: real where
  "max_f32 = (2 ^ 24 - 1) * 2 ^ 104"

definition exponent32 :: "real \<Rightarrow> int" where
  "exponent32 r = (if \<bar>r\<bar> < 2 powi (- 126) then - 126 else \<lfloor>log 2 \<bar>r\<bar>\<rfloor>)"

definition quantum32 :: "real \<Rightarrow> real" where
  "quantum32 r = 2 powi (exponent32 r - 23)"

definition round32 :: "real \<Rightarrow> f32" where
  "round32 r =
     (let y = of_int (round_even (r / quantum32 r)) * quantum32 r
      in if max_f32 < \<bar>y\<bar> then (if 0 < r then PInf else NInf) else Finite y)"



fun f_add :: "f32 \<Rightarrow> f32 \<Rightarrow> f32" where
  "f_add NaN b = NaN"
| "f_add a NaN = NaN"
| "f_add (Finite u) (Finite v) = round32 (u + v)"
| "f_add PInf NInf = NaN"
| "f_add NInf PInf = NaN"
| "f_add PInf b = PInf"
| "f_add a PInf = PInf"
| "f_add NInf b = NInf"
| "f_add a NInf = NInf"

fun f_neg :: "f32 \<Rightarrow> f32" where
  "f_neg (Finite u) = Finite (- u)"
| "f_neg PInf = NInf"
| "f_neg NInf = PInf"
| "f_neg NaN = NaN"

definition f_sub :: "f32 \<Rightarrow> f32 \<Rightarrow> f32" where
  "f_sub a b = f_add a (f_neg b)"











section \<open>Properties of the array primitives\<close>

lemma concat_chunks: "length xs = k * n \<Longrightarrow> concat (chunks k n xs) = xs"
  by (induction k arbitrary: xs) simp_all

lemma length_chunks [simp]: "length (chunks k n xs) = k"
  by (induction k arbitrary: xs) simp_all

lemma chunks_nth:
  "g < k \<Longrightarrow> chunks k n xs ! g = take n (drop (g * n) xs)"
proof (induction k arbitrary: xs g)
  case 0
  then show ?case by simp
next
  case (Suc k)
  show ?case
  proof (cases g)
    case 0
    then show ?thesis by simp
  next
    case (Suc g')
    with Suc.prems have "g' < k" by simp
    from Suc.IH [OF this, of "drop n xs"] Suc show ?thesis
      by (simp add: add.commute)
  qed
qed

lemma chunks_length_each:
  "length xs = k * n \<Longrightarrow> ys \<in> set (chunks k n xs) \<Longrightarrow> length ys = n"
proof (induction k arbitrary: xs)
  case 0
  then show ?case by simp
next
  case (Suc k)
  from Suc.prems Suc.IH [of "drop n xs"] show ?case by auto
qed


lemma chunks_numeral [simp]:
  "chunks (numeral k) n xs = take n xs # chunks (pred_numeral k) n (drop n xs)"
  by (simp add: numeral_eq_Suc)

lemma rows_zip:
  "map (\<lambda>(row, mu, iv). F row mu iv) (zip rows (zip (map f rows) (map g rows)))
     = map (\<lambda>row. F row (f row) (g row)) rows"
  by (induction rows) simp_all

lemma take_drop_concat_map:
  assumes "\<And>ys. ys \<in> set rows \<Longrightarrow> length (f ys) = n" and "g < length rows"
  shows "take n (drop (g * n) (concat (map f rows))) = f (rows ! g)"
  using assms
proof (induction rows arbitrary: g)
  case Nil
  then show ?case by simp
next
  case (Cons r rows)
  have len: "length (f r) = n" using Cons.prems(1) by simp
  show ?case
  proof (cases g)
    case 0
    then show ?thesis using len by simp
  next
    case (Suc g')
    then have "g' < length rows" using Cons.prems(2) by simp
    then have "take n (drop (g' * n) (concat (map f rows))) = f (rows ! g')"
      using Cons.IH Cons.prems(1) by simp
    then show ?thesis using Suc len by (simp add: add.commute)
  qed
qed

lemma broadcast_dims_same: "broadcast_dims s s = Some s"
  by (induction s) simp_all

lemma broadcast_shapes_same: "broadcast_shapes s s = Some s"
  by (simp add: broadcast_shapes_def broadcast_dims_same)

lemma broadcast_data_same: "length xs = prod_list s \<Longrightarrow> broadcast_data s s xs = xs"
proof (induction s arbitrary: xs)
  case Nil
  then show ?case by simp
next
  case (Cons k ss)
  have "map (broadcast_data ss ss) (chunks k (prod_list ss) xs) = chunks k (prod_list ss) xs"
    using Cons.IH chunks_length_each [of xs k "prod_list ss"] Cons.prems
    by (intro map_idI) simp
  then show ?case using Cons.prems by (simp add: concat_chunks)
qed

lemma broadcast_to_same: "wf_array a \<Longrightarrow> broadcast_to a (shape a) = data a"
  by (simp add: broadcast_to_def wf_array_def broadcast_data_same)

lemma wf_finite_array [simp]: "wf_array (finite_array a) = wf_array a"
  by (simp add: wf_array_def finite_array_def)

lemma shape_finite_array [simp]: "shape (finite_array a) = shape a"
  by (simp add: finite_array_def)

lemma data_finite_array [simp]: "data (finite_array a) = map Some (data a)"
  by (simp add: finite_array_def)

lemma broadcast_binop_same:
  assumes "wf_array a" and "wf_array b" and "shape a = shape b"
  shows "broadcast_binop f a b = Inr \<lparr>shape = shape a, data = map2 f (data a) (data b)\<rparr>"
  using assms broadcast_to_same [of a] broadcast_to_same [of b]
  by (simp add: broadcast_binop_def broadcast_shapes_same)

lemma list_ex_map_int [simp]: "\<not> list_ex (\<lambda>d. d < 0) (map int rest)"
  by (induction rest) simp_all

lemma map_nat_int [simp]: "map (nat \<circ> int) rest = rest"
  by (induction rest) simp_all

lemma group_size:
  assumes "0 < G" and "int c mod G = 0"
  shows "nat (int c div G) = c div nat G" and "nat G * (c div nat G) = c"
proof -
  obtain g where g: "G = int g" "0 < g" using assms(1) by (metis nat_0_less_mult_iff pos_int_cases zero_less_nat_eq nat_int mult.commute)
  have "int c mod int g = 0" using assms(2) g by simp
  then have "c mod g = 0" by (metis of_nat_mod of_nat_eq_0_iff)
  then have dvd: "g dvd c" by (simp add: dvd_eq_mod_eq_0)
  show "nat (int c div G) = c div nat G" using g by (simp add: zdiv_int [symmetric])
  show "nat G * (c div nat G) = c" using g dvd by simp
qed

section \<open>The normalisation in closed form\<close>

lemma normalise_row_spec: "normalise_row eps xs = normalise_spec eps xs"
proof (cases "xs = []")
  case True
  then show ?thesis by (simp add: normalise_row_def normalise_spec_def)
next
  case False
  then show ?thesis
    by (simp add: normalise_row_def normalise_spec_def jnp_mean_def jnp_var_def jnp_maximum_def
        rsqrt_def fadd_def fsub_def fmul_def lift2_def pop_mean_def pop_variance_def power2_eq_square)
qed

lemma length_normalise_spec [simp]: "length (normalise_spec eps xs) = length xs"
  by (simp add: normalise_spec_def)

lemma LayerNorm_normalised_spec:
  "LayerNorm_normalised eps x = \<lparr>shape = shape x, data = normalise_spec eps (data x)\<rparr>"
  using normalise_row_spec [of eps "data x"]
  by (simp add: LayerNorm_normalised_def normalise_row_def Let_def)

lemma wf_LayerNorm_normalised: "wf_array x \<Longrightarrow> wf_array (LayerNorm_normalised eps x)"
  by (simp add: LayerNorm_normalised_spec wf_array_def)

lemma LayerNorm_affine_same_shape:
  assumes out: "wf_array out"
    and w: "ln_use_weight m \<longrightarrow> (\<exists>w. ln_weight m = Some w \<and> wf_array w \<and> shape w = shape out)"
    and b: "ln_use_bias m \<longrightarrow> (\<exists>b. ln_bias m = Some b \<and> wf_array b \<and> shape b = shape out)"
  shows "LayerNorm_affine m out =
     Inr \<lparr>shape = shape out,
          data = (let y = data out;
                      y = (case (if ln_use_weight m then map_option data (ln_weight m) else None) of
                             None \<Rightarrow> y | Some w \<Rightarrow> map2 (\<lambda>w v. fmul (Some w) v) w y)
                  in case (if ln_use_bias m then map_option data (ln_bias m) else None) of
                       None \<Rightarrow> y | Some b \<Rightarrow> map2 (\<lambda>v b. fadd v (Some b)) y b)\<rparr>"
proof -
  define scaled where "scaled =
    (if ln_use_weight m
     then \<lparr>shape = shape out, data = map2 (\<lambda>w v. fmul (Some w) v) (data (the (ln_weight m))) (data out)\<rparr>
     else out)"
  have step1: "(if ln_use_weight m
            then (case ln_weight m of
                    None \<Rightarrow> Inl TypeError
                  | Some w \<Rightarrow> broadcast_binop fmul (finite_array w) out)
            else Inr out) = Inr scaled"
  proof (cases "ln_use_weight m")
    case True
    then obtain w' where w': "ln_weight m = Some w'" "wf_array w'" "shape w' = shape out"
      using w by auto
    show ?thesis
      using True w' out broadcast_binop_same [of "finite_array w'" out fmul]
      by (simp add: scaled_def zip_map1 split_def)
  next
    case False
    then show ?thesis by (simp add: scaled_def)
  qed
  have wfs: "wf_array scaled" and shs: "shape scaled = shape out"
    using out w by (auto simp: scaled_def wf_array_def)
  have step2: "(if ln_use_bias m
           then (case ln_bias m of
                   None \<Rightarrow> Inl TypeError
                 | Some b \<Rightarrow> broadcast_binop fadd scaled (finite_array b))
           else Inr scaled)
        = Inr \<lparr>shape = shape out,
               data = (case (if ln_use_bias m then map_option data (ln_bias m) else None) of
                       None \<Rightarrow> data scaled | Some b \<Rightarrow> map2 (\<lambda>v b. fadd v (Some b)) (data scaled) b)\<rparr>"
  proof (cases "ln_use_bias m")
    case True
    then obtain b' where b': "ln_bias m = Some b'" "wf_array b'" "shape b' = shape out"
      using b by auto
    show ?thesis
      using True b' wfs shs broadcast_binop_same [of scaled "finite_array b'" fadd]
      by (simp add: zip_map2 split_def)
  next
    case False
    then show ?thesis using shs by (cases scaled) simp
  qed
  have ds: "data scaled = (case (if ln_use_weight m then map_option data (ln_weight m) else None) of
                             None \<Rightarrow> data out | Some w \<Rightarrow> map2 (\<lambda>w v. fmul (Some w) v) w (data out))"
    using w by (auto simp: scaled_def)
  show ?thesis
    by (simp only: LayerNorm_affine_def step1 sum.case step2 Let_def ds)
qed

lemma LayerNorm_call_spec:
  assumes "wf_array x"
    and "ln_use_weight m \<longrightarrow> (\<exists>w. ln_weight m = Some w \<and> wf_array w \<and> shape w = shape x)"
    and "ln_use_bias m \<longrightarrow> (\<exists>b. ln_bias m = Some b \<and> wf_array b \<and> shape b = shape x)"
  shows "LayerNorm_call m x key =
           Inr \<lparr>shape = shape x,
                data = LayerNorm_spec (ln_eps m)
                         (if ln_use_weight m then map_option data (ln_weight m) else None)
                         (if ln_use_bias m then map_option data (ln_bias m) else None) (data x)\<rparr>"
  using LayerNorm_affine_same_shape [of "LayerNorm_normalised (ln_eps m) x" m] assms
    wf_LayerNorm_normalised [of x "ln_eps m"]
  by (simp add: LayerNorm_call_def LayerNorm_spec_def LayerNorm_normalised_spec)

lemma GroupNorm_normalised_rows:
  assumes wf: "wf_array x" and shp: "shape x = c # rest" and G: "0 < G" and dvd: "int c mod G = 0"
  shows "GroupNorm_normalised G eps x =
           Inr \<lparr>shape = shape x,
                data = concat (map (normalise_row eps)
                         (chunks (nat G) ((c div nat G) * prod_list rest) (data x)))\<rparr>"
proof -
  have len: "length (data x) = c * prod_list rest"
    using wf shp by (simp add: wf_array_def)
  have per: "nat (int c div G) = c div nat G" and tot: "nat G * (c div nat G) = c"
    using group_size [OF G dvd] by simp_all
  have nonneg: "\<not> int c div G < 0"
    using G pos_imp_zdiv_nonneg_iff [of G "int c"] by simp
  have size: "nat G * (nat (int c div G) * prod_list rest) = length (data x)"
    using len per tot by (metis mult.assoc)
  have rs: "reshape x (G # int c div G # map int rest) =
              Inr \<lparr>shape = nat G # (c div nat G) # rest, data = data x\<rparr>"
    using G nonneg size per by (simp add: reshape_def)
  have fd: "py_floordiv (int c) G = Inr (int c div G)"
    using G by (simp add: py_floordiv_def)
  let ?rows = "chunks (nat G) ((c div nat G) * prod_list rest) (data x)"
  have "map (\<lambda>(row, mu, iv). map (\<lambda>v. fmul (fsub (Some v) mu) iv) row)
          (zip ?rows (zip (map jnp_mean ?rows)
             (map (\<lambda>row. rsqrt (fadd (jnp_maximum 0 (jnp_var row)) (Some eps))) ?rows)))
        = map (normalise_row eps) ?rows"
    unfolding normalise_row_def by (rule rows_zip)
  then show ?thesis
    by (simp add: GroupNorm_normalised_def shp fd rs per Let_def comp_def)
qed

lemma GroupNorm_normalised_slices:
  assumes wf: "wf_array x" and shp: "shape x = c # rest" and G: "0 < G" and dvd: "int c mod G = 0"
  shows "\<exists>out. GroupNorm_normalised G eps x = Inr out \<and> shape out = shape x
           \<and> length (data out) = length (data x)
           \<and> (\<forall>g < nat G.
                 take ((c div nat G) * prod_list rest) (drop (g * ((c div nat G) * prod_list rest)) (data out))
                 = normalise_spec eps
                     (take ((c div nat G) * prod_list rest) (drop (g * ((c div nat G) * prod_list rest)) (data x))))"
proof -
  let ?n = "(c div nat G) * prod_list rest"
  let ?rows = "chunks (nat G) ?n (data x)"
  let ?out = "\<lparr>shape = shape x, data = concat (map (normalise_spec eps) ?rows)\<rparr>"
  have len: "length (data x) = nat G * ?n"
    using wf shp group_size(2) [OF G dvd] by (simp add: wf_array_def mult.assoc [symmetric])
  have each: "\<And>ys. ys \<in> set ?rows \<Longrightarrow> length (normalise_spec eps ys) = ?n"
    using chunks_length_each [OF len] by simp
  have eq: "GroupNorm_normalised G eps x = Inr ?out"
    using GroupNorm_normalised_rows [OF wf shp G dvd, of eps]
    by (simp add: normalise_row_spec [abs_def])
  have slice: "take ?n (drop (g * ?n) (data ?out)) = normalise_spec eps (take ?n (drop (g * ?n) (data x)))"
    if "g < nat G" for g
    using take_drop_concat_map [of ?rows "normalise_spec eps" ?n g] each that
    by (simp add: chunks_nth)
  have "length (concat (map (normalise_spec eps) ?rows)) = length (concat ?rows)"
    by (simp add: length_concat comp_def)
  then have l: "length (data ?out) = length (data x)"
    using concat_chunks [OF len] by simp
  show ?thesis using eq slice l by (intro exI [of _ ?out]) simp
qed

lemma GroupNorm_one_group:
  assumes wf: "wf_array x" and shp: "shape x = c # rest"
  shows "GroupNorm_normalised 1 eps x = Inr (LayerNorm_normalised eps x)"
proof -
  have len: "length (data x) = c * prod_list rest"
    using wf shp by (simp add: wf_array_def)
  have "GroupNorm_normalised 1 eps x =
          Inr \<lparr>shape = shape x,
               data = concat (map (normalise_row eps)
                        (chunks (nat 1) ((c div nat 1) * prod_list rest) (data x)))\<rparr>"
    by (rule GroupNorm_normalised_rows [OF wf shp]) simp_all
  then show ?thesis
    using len by (simp add: LayerNorm_normalised_spec normalise_row_spec)
qed

lemma GroupNorm_affine_channels:
  "GroupNorm_affine (m\<lparr>gn_channels := ch\<rparr>) out = GroupNorm_affine m out"
  by (simp add: GroupNorm_affine_def)

subsection \<open>The worked example\<close>

lemma example_values:
  "normalise_spec 0 [1, 2, 3, 4] =
     [Some (- (3 / 2) / sqrt (5 / 4)), Some (- (1 / 2) / sqrt (5 / 4)),
      Some ((1 / 2) / sqrt (5 / 4)), Some ((3 / 2) / sqrt (5 / 4))]"
proof -
  have m: "pop_mean [1, 2, 3, 4] = 5 / 2" by (simp add: pop_mean_def)
  have v: "pop_variance [1, 2, 3, 4] = 5 / 4" by (simp add: pop_variance_def m power2_eq_square)
  show ?thesis by (simp add: normalise_spec_def m v real_sqrt_divide)
qed

lemma sqrt_bounds: "111803 / 100000 < sqrt (5 / 4)" "sqrt (5 / 4) < 111804 / 100000"
proof -
  show "111803 / 100000 < sqrt (5 / 4)"
    by (rule real_less_rsqrt) (simp add: power2_eq_square)
  show "sqrt (5 / 4) < 111804 / 100000"
    by (rule real_less_lsqrt) (simp_all add: power2_eq_square)
qed

lemma example_bounds:
  "\<bar>(3 / 2) / sqrt (5 / 4) - 13416 / 10000\<bar> < 1 / 10000"
  "\<bar>(1 / 2) / sqrt (5 / 4) - 4472 / 10000\<bar> < 1 / 10000"
proof -
  define s :: real where "s = sqrt (5 / 4)"
  define t :: real where "t = (3 / 2) / s"
  define u :: real where "u = (1 / 2) / s"
  have lo: "111803 / 100000 < s" and hi: "s < 111804 / 100000"
    using sqrt_bounds by (simp_all add: s_def)
  have pos: "0 < s" using lo by simp
  have t: "t < 13417 / 10000" "13415 / 10000 < t"
    unfolding t_def using lo hi pos by (simp_all add: pos_divide_less_eq pos_less_divide_eq)
  have u: "u < 4473 / 10000" "4471 / 10000 < u"
    unfolding u_def using lo hi pos by (simp_all add: pos_divide_less_eq pos_less_divide_eq)
  have "\<bar>t - 13416 / 10000\<bar> < 1 / 10000" using t by linarith
  then show "\<bar>(3 / 2) / sqrt (5 / 4) - 13416 / 10000\<bar> < 1 / 10000"
    by (simp only: t_def s_def)
  have "\<bar>u - 4472 / 10000\<bar> < 1 / 10000" using u by linarith
  then show "\<bar>(1 / 2) / sqrt (5 / 4) - 4472 / 10000\<bar> < 1 / 10000"
    by (simp only: u_def s_def)
qed

lemma LayerNorm_example:
  "\<exists>y0 y1 y2 y3.
      LayerNorm_call \<lparr>ln_shape = SeqShape [4], ln_eps = 0, ln_use_weight = False,
                      ln_use_bias = False, ln_weight = None, ln_bias = None\<rparr>
          \<lparr>shape = [4], data = [1, 2, 3, 4]\<rparr> key
        = Inr \<lparr>shape = [4], data = [Some y0, Some y1, Some y2, Some y3]\<rparr>
      \<and> \<bar>y0 - (- 13416 / 10000)\<bar> < 1 / 10000 \<and> \<bar>y1 - (- 4472 / 10000)\<bar> < 1 / 10000
      \<and> \<bar>y2 - 4472 / 10000\<bar> < 1 / 10000 \<and> \<bar>y3 - 13416 / 10000\<bar> < 1 / 10000"
proof -
  define a :: real where "a = (3 / 2) / sqrt (5 / 4)"
  define b :: real where "b = (1 / 2) / sqrt (5 / 4)"
  have ab: "\<bar>a - 13416 / 10000\<bar> < 1 / 10000" "\<bar>b - 4472 / 10000\<bar> < 1 / 10000"
    using example_bounds by (simp_all only: a_def b_def)
  have vals: "normalise_spec 0 [1, 2, 3, 4] = [Some (- a), Some (- b), Some b, Some a]"
    using example_values by (simp only: a_def b_def minus_divide_left)
  have call: "LayerNorm_call \<lparr>ln_shape = SeqShape [4], ln_eps = 0, ln_use_weight = False,
                      ln_use_bias = False, ln_weight = None, ln_bias = None\<rparr>
          \<lparr>shape = [4], data = [1, 2, 3, 4]\<rparr> key
        = Inr \<lparr>shape = [4], data = [Some (- a), Some (- b), Some b, Some a]\<rparr>"
    by (simp add: LayerNorm_call_def LayerNorm_affine_def LayerNorm_normalised_spec vals)
  have "\<bar>- a - (- 13416 / 10000)\<bar> < 1 / 10000" "\<bar>- b - (- 4472 / 10000)\<bar> < 1 / 10000"
    using ab by linarith+
  then show ?thesis using call ab by blast
qed

lemma messages_differ: "divide_message \<noteq> channels_message"
  by (simp add: divide_message_def channels_message_def)

section \<open>Rounding to float32\<close>

lemma round_even_of_int [simp]: "round_even (of_int k) = k"
  by (simp add: round_even_def)

lemma round_even_zero [simp]: "round_even 0 = 0"
  using round_even_of_int [of 0] by simp


lemma round32_zero [simp]: "round32 0 = Finite 0"
  by (simp add: round32_def max_f32_def)

lemma round32_one [simp]: "round32 1 = Finite 1"
proof -
  have e: "exponent32 1 = 0" by (simp add: exponent32_def power_int_def power_one_over)
  have q: "quantum32 1 = 1 / 2 ^ 23" by (simp add: quantum32_def e power_int_def field_simps)
  have "(1::real) / (1 / 2 ^ 23) = of_int (2 ^ 23)" by simp
  then have "round_even (1 / quantum32 1) = 2 ^ 23"
    unfolding q by (simp only: round_even_of_int)
  then show ?thesis by (simp add: round32_def q max_f32_def)
qed

lemma round32_two [simp]: "round32 2 = Finite 2"
proof -
  have e: "exponent32 2 = 1" by (simp add: exponent32_def power_int_def power_one_over)
  have q: "quantum32 2 = 1 / 2 ^ 22" by (simp add: quantum32_def e power_int_def field_simps)
  have "(2::real) / (1 / 2 ^ 22) = of_int (2 ^ 23)" by simp
  then have "round_even (2 / quantum32 2) = 2 ^ 23"
    unfolding q by (simp only: round_even_of_int)
  then show ?thesis by (simp add: round32_def q max_f32_def)
qed

























lemma f_sub_self [simp]: "f_sub (Finite c) (Finite c) = Finite 0"
  by (simp add: f_sub_def)









lemma round_even_numeral [simp]: "round_even (numeral n) = numeral n"
  using round_even_of_int [of "numeral n"] by simp



section \<open>The claims\<close>

text \<open>
  C1. For a well-formed input \<open>x\<close>, \<^verbatim>\<open>LayerNorm.__call__\<close> returns an array of the shape of
  \<open>x\<close> whose elements are \<open>(x - mean) * inv\<close>, with the mean over every element of \<open>x\<close>, the
  population variance floored at \<open>0\<close> and \<open>inv = 1 / sqrt (variance + eps)\<close>; an enabled
  weight of the shape of \<open>x\<close> multiplies the result elementwise and an enabled bias of that
  shape is added elementwise. The module \<^verbatim>\<open>LayerNorm(shape=(4,), eps=0)\<close> without affine
  parameters maps \<open>[1, 2, 3, 4]\<close> to four finite values within \<open>1 / 10000\<close> of
  \<open>-1.3416, -0.4472, 0.4472, 1.3416\<close>.
\<close>

theorem LayerNorm_call_formula:
  assumes "wf_array x"
    and "ln_use_weight m \<longrightarrow> (\<exists>w. ln_weight m = Some w \<and> wf_array w \<and> shape w = shape x)"
    and "ln_use_bias m \<longrightarrow> (\<exists>b. ln_bias m = Some b \<and> wf_array b \<and> shape b = shape x)"
  shows "LayerNorm_call m x key =
           Inr \<lparr>shape = shape x,
                data = LayerNorm_spec (ln_eps m)
                         (if ln_use_weight m then map_option data (ln_weight m) else None)
                         (if ln_use_bias m then map_option data (ln_bias m) else None) (data x)\<rparr>
    \<and> snd (LayerNorm_init (SeqShape [4]) 0 False False None) =
         Inr \<lparr>ln_shape = SeqShape [4], ln_eps = 0, ln_use_weight = False,
              ln_use_bias = False, ln_weight = None, ln_bias = None\<rparr>
    \<and> (\<exists>y0 y1 y2 y3.
          LayerNorm_call \<lparr>ln_shape = SeqShape [4], ln_eps = 0, ln_use_weight = False,
                          ln_use_bias = False, ln_weight = None, ln_bias = None\<rparr>
              \<lparr>shape = [4], data = [1, 2, 3, 4]\<rparr> key
            = Inr \<lparr>shape = [4], data = [Some y0, Some y1, Some y2, Some y3]\<rparr>
          \<and> \<bar>y0 - (- 13416 / 10000)\<bar> < 1 / 10000 \<and> \<bar>y1 - (- 4472 / 10000)\<bar> < 1 / 10000
          \<and> \<bar>y2 - 4472 / 10000\<bar> < 1 / 10000 \<and> \<bar>y3 - 13416 / 10000\<bar> < 1 / 10000)"
proof -
  have "snd (LayerNorm_init (SeqShape [4]) 0 False False None) =
         Inr \<lparr>ln_shape = SeqShape [4], ln_eps = 0, ln_use_weight = False,
              ln_use_bias = False, ln_weight = None, ln_bias = None\<rparr>"
    by (simp add: LayerNorm_init_def)
  then show ?thesis
    using LayerNorm_call_spec [OF assms, of key] LayerNorm_example [of key] by blast
qed

theorem LayerNorm_call_formula_witness:
  "LayerNorm_call \<lparr>ln_shape = IntShape 2, ln_eps = 0, ln_use_weight = True, ln_use_bias = True,
                   ln_weight = Some \<lparr>shape = [2], data = [2, 3]\<rparr>,
                   ln_bias = Some \<lparr>shape = [2], data = [10, 20]\<rparr>\<rparr>
       \<lparr>shape = [2], data = [1, 3]\<rparr> None
     = Inr \<lparr>shape = [2], data = [Some 8, Some 23]\<rparr>"
  using LayerNorm_call_formula [where
      m = "\<lparr>ln_shape = IntShape 2, ln_eps = 0, ln_use_weight = True, ln_use_bias = True,
                   ln_weight = Some \<lparr>shape = [2], data = [2, 3]\<rparr>,
                   ln_bias = Some \<lparr>shape = [2], data = [10, 20]\<rparr>\<rparr>"
      and x = "\<lparr>shape = [2], data = [1, 3]\<rparr>" and key = None]
  by (simp add: wf_array_def LayerNorm_spec_def normalise_spec_def pop_mean_def pop_variance_def
      fmul_def fadd_def lift2_def)

text \<open>
  C2. Let \<open>x\<close> be a well-formed array of shape \<open>c # rest\<close> and let the positive group count
  divide \<open>c\<close>. The normalisation step of \<^verbatim>\<open>GroupNorm.__call__\<close> returns an array of the
  shape of \<open>x\<close> in which the slice of every group is the slice of that group of \<open>x\<close>,
  normalised with the one mean and the one population variance of that slice alone, at
  the place the group has in \<open>x\<close>. With as many groups as channels this holds for every
  channel: its output is a function of its own trailing-axis slice. Without the affine
  step this array is what the call returns.
\<close>

theorem GroupNorm_per_group_statistics:
  assumes "wf_array x" and "shape x = c # rest" and "0 < G" and "int c mod G = 0"
  shows "\<exists>out. GroupNorm_normalised G eps x = Inr out \<and> shape out = shape x
           \<and> length (data out) = length (data x)
           \<and> (\<forall>g < nat G.
                 group_slice ((c div nat G) * prod_list rest) g (data out)
                 = normalise_spec eps (group_slice ((c div nat G) * prod_list rest) g (data x)))
           \<and> (G = int c \<longrightarrow>
                (\<forall>j < c. group_slice (prod_list rest) j (data out)
                          = normalise_spec eps (group_slice (prod_list rest) j (data x))))
           \<and> (gn_groups m = G \<and> gn_eps m = eps \<and> \<not> gn_channelwise_affine m \<longrightarrow>
                GroupNorm_call m x key = Inr out)"
proof -
  obtain out where out: "GroupNorm_normalised G eps x = Inr out"
      "shape out = shape x" "length (data out) = length (data x)"
      "\<forall>g < nat G.
          take ((c div nat G) * prod_list rest)
            (drop (g * ((c div nat G) * prod_list rest)) (data out))
          = normalise_spec eps
              (take ((c div nat G) * prod_list rest)
                 (drop (g * ((c div nat G) * prod_list rest)) (data x)))"
    using GroupNorm_normalised_slices [OF assms, of eps] by blast
  have call: "GroupNorm_call m x key = Inr out"
    if "gn_groups m = G" "gn_eps m = eps" "\<not> gn_channelwise_affine m"
    using out(1) that by (simp add: GroupNorm_call_def GroupNorm_affine_def)
  have own: "\<forall>j < c. group_slice (prod_list rest) j (data out)
                = normalise_spec eps (group_slice (prod_list rest) j (data x))"
    if "G = int c"
  proof -
    have "0 < c" using that assms(3) by simp
    then have "c div nat G = 1" using that by simp
    then show ?thesis using out(4) that by (simp add: group_slice_def)
  qed
  show ?thesis
    using call out(1,2,3,4) own by (intro exI [of _ out]) (simp add: group_slice_def)
qed

theorem GroupNorm_per_group_statistics_witness:
  "GroupNorm_call \<lparr>gn_groups = 2, gn_channels = None, gn_eps = 0, gn_channelwise_affine = False,
                   gn_weight = None, gn_bias = None\<rparr>
       \<lparr>shape = [2, 2], data = [1, 3, 10, 30]\<rparr> None
     = Inr \<lparr>shape = [2, 2], data = [Some (- 1), Some 1, Some (- 1), Some 1]\<rparr>
   \<and> group_slice 2 1 [Some (- 1), Some 1, Some (- 1), Some (1::real)]
       = normalise_spec 0 (group_slice 2 1 [1, 3, 10, 30])"
  using GroupNorm_per_group_statistics [where x = "\<lparr>shape = [2, 2], data = [1, 3, 10, 30]\<rparr>"
      and c = 2 and rest = "[2]" and key = None and G = 2 and eps = 0
      and m = "\<lparr>gn_groups = 2, gn_channels = None, gn_eps = 0, gn_channelwise_affine = False,
                   gn_weight = None, gn_bias = None\<rparr>"]
  by (simp add: wf_array_def GroupNorm_call_def GroupNorm_affine_def GroupNorm_normalised_def
      py_floordiv_def reshape_def jnp_mean_def jnp_var_def jnp_maximum_def rsqrt_def fadd_def
      fsub_def fmul_def lift2_def group_slice_def normalise_spec_def pop_mean_def pop_variance_def)

text \<open>
  C3. On a well-formed array whose leading axis has \<open>c\<close> entries,
  \<^verbatim>\<open>GroupNorm(groups=1, channels=c, eps, channelwise_affine=False)\<close> and \<^verbatim>\<open>LayerNorm\<close> with the
  same \<open>eps\<close> and no affine parameters are both constructed and return the same array,
  whatever keys are passed.
\<close>

theorem GroupNorm_one_group_is_LayerNorm:
  assumes "wf_array x" and "shape x = c # rest"
  shows "\<exists>g m. GroupNorm_init 1 (Some (int c)) eps False = Inr g
           \<and> snd (LayerNorm_init shp eps False False None) = Inr m
           \<and> GroupNorm_call g x k = LayerNorm_call m x k'
           \<and> LayerNorm_call m x k' = Inr \<lparr>shape = shape x, data = normalise_spec eps (data x)\<rparr>"
proof -
  let ?g = "\<lparr>gn_groups = 1, gn_channels = Some (int c), gn_eps = eps,
             gn_channelwise_affine = False, gn_weight = None, gn_bias = None\<rparr>"
  let ?m = "\<lparr>ln_shape = shp, ln_eps = eps, ln_use_weight = False, ln_use_bias = False,
             ln_weight = None, ln_bias = None\<rparr>"
  have g: "GroupNorm_init 1 (Some (int c)) eps False = Inr ?g"
    by (simp add: GroupNorm_init_def py_mod_def)
  have m: "snd (LayerNorm_init shp eps False False None) = Inr ?m"
    by (simp add: LayerNorm_init_def)
  have l: "LayerNorm_call ?m x k' = Inr (LayerNorm_normalised eps x)"
    by (simp add: LayerNorm_call_def LayerNorm_affine_def)
  have "GroupNorm_call ?g x k = Inr (LayerNorm_normalised eps x)"
    using GroupNorm_one_group [OF assms, of eps]
    by (simp add: GroupNorm_call_def GroupNorm_affine_def)
  then show ?thesis using g m l by (simp add: LayerNorm_normalised_spec)
qed

theorem GroupNorm_one_group_is_LayerNorm_witness:
  "GroupNorm_call \<lparr>gn_groups = 1, gn_channels = Some 2, gn_eps = 3, gn_channelwise_affine = False,
                   gn_weight = None, gn_bias = None\<rparr>
       \<lparr>shape = [2, 2], data = [1, 1, 3, 3]\<rparr> None
     = LayerNorm_call \<lparr>ln_shape = SeqShape [2, 2], ln_eps = 3, ln_use_weight = False,
                       ln_use_bias = False, ln_weight = None, ln_bias = None\<rparr>
         \<lparr>shape = [2, 2], data = [1, 1, 3, 3]\<rparr> None
   \<and> LayerNorm_call \<lparr>ln_shape = SeqShape [2, 2], ln_eps = 3, ln_use_weight = False,
                       ln_use_bias = False, ln_weight = None, ln_bias = None\<rparr>
         \<lparr>shape = [2, 2], data = [1, 1, 3, 3]\<rparr> None
     = Inr \<lparr>shape = [2, 2], data = [Some (- 1 / 2), Some (- 1 / 2), Some (1 / 2), Some (1 / 2)]\<rparr>"
  using GroupNorm_one_group_is_LayerNorm [where x = "\<lparr>shape = [2, 2], data = [1, 1, 3, 3]\<rparr>"
      and c = 2 and rest = "[2]" and eps = 3 and shp = "SeqShape [2, 2]" and k = None and k' = None]
  by (simp add: wf_array_def GroupNorm_init_def py_mod_def LayerNorm_init_def normalise_spec_def
      pop_mean_def pop_variance_def)

text \<open>
  C4. The constructor takes a group count and an optional channel count of the layer's
  data model: the group count is not \<open>0\<close> and a channel count that is given is not
  negative. Construction fails exactly when the channel count is given and
  \<^verbatim>\<open>channels % groups\<close> is not \<open>0\<close>, or the channel count is \<^verbatim>\<open>None\<close> and the affine
  parameters are requested. The failure is the \<^verbatim>\<open>ValueError\<close> of the check concerned, and
  for all other arguments the module is constructed with the fields passed.
  \<^verbatim>\<open>GroupNorm(groups=3, channels=10)\<close> and
  \<^verbatim>\<open>GroupNorm(groups=2, channels=None, channelwise_affine=True)\<close> are rejected.
\<close>

theorem GroupNorm_init_rejects:
  assumes "groups \<noteq> 0" and "\<forall>c. channels = Some c \<longrightarrow> 0 \<le> c"
  shows "(isl (GroupNorm_init groups channels eps aff)
            \<longleftrightarrow> config_error_claimed groups channels aff)
    \<and> ((\<exists>msg. GroupNorm_init groups channels eps aff = Inl (ValueError msg))
            \<longleftrightarrow> config_error_claimed groups channels aff)
    \<and> (GroupNorm_init groups channels eps aff = Inl (ValueError divide_message)
            \<longleftrightarrow> (\<exists>c. channels = Some c \<and> c mod groups \<noteq> 0))
    \<and> (GroupNorm_init groups channels eps aff = Inl (ValueError channels_message)
            \<longleftrightarrow> channels = None \<and> aff)
    \<and> (\<not> config_error_claimed groups channels aff \<longrightarrow>
          (\<exists>m. GroupNorm_init groups channels eps aff = Inr m \<and> gn_groups m = groups
             \<and> gn_channels m = channels \<and> gn_eps m = eps \<and> gn_channelwise_affine m = aff))
    \<and> GroupNorm_init 3 (Some 10) eps aff = Inl (ValueError divide_message)
    \<and> GroupNorm_init 2 None eps True = Inl (ValueError channels_message)"
  using assms messages_differ
  by (auto simp: GroupNorm_init_def py_mod_def jnp_full_def config_error_claimed_def
      split: option.splits sum.splits bool.splits)

theorem GroupNorm_init_rejects_witness:
  "\<not> config_error_claimed 4 (Some 8) True
   \<and> GroupNorm_init 4 (Some 8) (1 / 100000) True =
       Inr \<lparr>gn_groups = 4, gn_channels = Some 8, gn_eps = 1 / 100000, gn_channelwise_affine = True,
            gn_weight = Some \<lparr>shape = [8], data = [1, 1, 1, 1, 1, 1, 1, 1]\<rparr>,
            gn_bias = Some \<lparr>shape = [8], data = [0, 0, 0, 0, 0, 0, 0, 0]\<rparr>\<rparr>
   \<and> config_error_claimed 4 (Some 6) True
   \<and> GroupNorm_init 4 (Some 6) (1 / 100000) True = Inl (ValueError divide_message)"
  using GroupNorm_init_rejects [of 4 "Some 8" "1 / 100000" True]
    GroupNorm_init_rejects [of 4 "Some 6" "1 / 100000" True]
  by (simp add: config_error_claimed_def GroupNorm_init_def py_mod_def jnp_full_def
      eval_nat_numeral)




text \<open>
  C6. With both flags of \<^verbatim>\<open>LayerNorm\<close> off, and with \<^verbatim>\<open>channelwise_affine\<close> of
  \<^verbatim>\<open>GroupNorm\<close> off, the call returns the value computed before the affine step and
  nothing else: no weight or bias is read, whatever the module stores in these fields.
\<close>

theorem disabled_affine_is_identity:
  "(\<not> ln_use_weight m \<and> \<not> ln_use_bias m \<longrightarrow>
      LayerNorm_call m x key = Inr (LayerNorm_normalised (ln_eps m) x))
   \<and> (\<not> gn_channelwise_affine g \<longrightarrow>
      GroupNorm_call g x key = GroupNorm_normalised (gn_groups g) (gn_eps g) x)"
  by (simp add: LayerNorm_call_def LayerNorm_affine_def GroupNorm_call_def GroupNorm_affine_def
      split: sum.splits)

theorem disabled_affine_is_identity_witness:
  "LayerNorm_call \<lparr>ln_shape = NoShape, ln_eps = 0, ln_use_weight = False, ln_use_bias = False,
                   ln_weight = Some \<lparr>shape = [2], data = [5, 7]\<rparr>, ln_bias = None\<rparr>
       \<lparr>shape = [2], data = [1, 3]\<rparr> None
     = Inr \<lparr>shape = [2], data = [Some (- 1), Some 1]\<rparr>
   \<and> GroupNorm_call \<lparr>gn_groups = 1, gn_channels = None, gn_eps = 0, gn_channelwise_affine = False,
                   gn_weight = None, gn_bias = None\<rparr>
       \<lparr>shape = [2], data = [1, 3]\<rparr> None
     = Inr \<lparr>shape = [2], data = [Some (- 1), Some 1]\<rparr>"
  using disabled_affine_is_identity [where
      m = "\<lparr>ln_shape = NoShape, ln_eps = 0, ln_use_weight = False, ln_use_bias = False,
                   ln_weight = Some \<lparr>shape = [2], data = [5, 7]\<rparr>, ln_bias = None\<rparr>"
      and g = "\<lparr>gn_groups = 1, gn_channels = None, gn_eps = 0, gn_channelwise_affine = False,
                   gn_weight = None, gn_bias = None\<rparr>"
      and x = "\<lparr>shape = [2], data = [1, 3]\<rparr>" and key = None]
  by (simp add: LayerNorm_normalised_def GroupNorm_normalised_def jnp_mean_def jnp_var_def
      jnp_maximum_def rsqrt_def fadd_def fsub_def fmul_def lift2_def py_floordiv_def reshape_def
      eval_nat_numeral)

text \<open>
  C7. Constructing \<^verbatim>\<open>LayerNorm\<close> with \<^verbatim>\<open>shape=None\<close> while an affine parameter is enabled
  raises from the constructor, in the allocation of that parameter; in particular
  \<^verbatim>\<open>LayerNorm(shape=None, use_weight=True)\<close> is rejected. With no affine parameter enabled
  the same construction succeeds.
\<close>

theorem LayerNorm_init_missing_shape:
  "(affine_enabled uw ub ea \<longrightarrow> snd (LayerNorm_init NoShape eps uw ub ea) = Inl TypeError)
   \<and> (\<not> affine_enabled uw ub ea \<longrightarrow> (\<exists>m. snd (LayerNorm_init NoShape eps uw ub ea) = Inr m))
   \<and> snd (LayerNorm_init NoShape eps True ub None) = Inl TypeError"
  by (auto simp: LayerNorm_init_def jnp_full_def affine_enabled_def split: option.splits)

theorem LayerNorm_init_missing_shape_witness:
  "affine_enabled False True None
   \<and> snd (LayerNorm_init NoShape (1 / 100000) False True None) = Inl TypeError
   \<and> \<not> affine_enabled True True (Some False)
   \<and> (\<exists>m. snd (LayerNorm_init NoShape (1 / 100000) True True (Some False)) = Inr m)"
  using LayerNorm_init_missing_shape [of False True None "1 / 100000"]
    LayerNorm_init_missing_shape [of True True "Some False" "1 / 100000"]
  by (simp add: affine_enabled_def)

text \<open>
  C8. When \<^verbatim>\<open>elementwise_affine\<close> is given, the constructor emits the deprecation warning
  and builds what it builds for \<^verbatim>\<open>use_weight = use_bias = elementwise_affine\<close>, whatever
  flags were passed; the module has no field for the deprecated flag, so a call cannot
  read it. When it is \<^verbatim>\<open>None\<close> no warning is emitted and the two flags are stored as
  passed. Construction succeeds whenever the shape can be allocated.
\<close>

theorem elementwise_affine_overrides:
  "LayerNorm_init shp eps uw ub (Some b) =
      ([deprecation_message], snd (LayerNorm_init shp eps b b None))
   \<and> fst (LayerNorm_init shp eps uw ub None) = []
   \<and> (\<forall>m. snd (LayerNorm_init shp eps uw ub (Some b)) = Inr m \<longrightarrow>
          ln_use_weight m = b \<and> ln_use_bias m = b)
   \<and> (\<forall>m. snd (LayerNorm_init shp eps uw ub None) = Inr m \<longrightarrow>
          ln_use_weight m = uw \<and> ln_use_bias m = ub)
   \<and> (\<not> isl (jnp_full 1 shp) \<longrightarrow> \<not> isl (snd (LayerNorm_init shp eps uw ub ea)))"
  by (auto simp: LayerNorm_init_def jnp_full_def split: option.splits sum.splits shape_arg.splits if_splits)

theorem elementwise_affine_overrides_witness:
  "LayerNorm_init (IntShape 2) (1 / 100000) True False (Some False) =
     ([deprecation_message],
      Inr \<lparr>ln_shape = IntShape 2, ln_eps = 1 / 100000, ln_use_weight = False,
           ln_use_bias = False, ln_weight = None, ln_bias = None\<rparr>)
   \<and> LayerNorm_init (IntShape 2) (1 / 100000) True False None =
     ([],
      Inr \<lparr>ln_shape = IntShape 2, ln_eps = 1 / 100000, ln_use_weight = True,
           ln_use_bias = False, ln_weight = Some \<lparr>shape = [2], data = [1, 1]\<rparr>, ln_bias = None\<rparr>)"
  using elementwise_affine_overrides [of "IntShape 2" "1 / 100000" True False False None]
  by (simp add: LayerNorm_init_def jnp_full_def eval_nat_numeral)

text \<open>
  C9. Both calls return the same result for any two values of the \<^verbatim>\<open>key\<close> argument,
  \<^verbatim>\<open>None\<close> included.
\<close>

theorem key_is_ignored:
  "LayerNorm_call m x k1 = LayerNorm_call m x k2 \<and> GroupNorm_call g x k1 = GroupNorm_call g x k2"
  by (simp add: LayerNorm_call_def GroupNorm_call_def)

text \<open>
  C10. \<^verbatim>\<open>GroupNorm.__call__\<close> never reads the configured channel count: replacing it
  changes no result. On a well-formed input of shape \<open>c # rest\<close> whose \<open>c\<close> the positive
  group count divides, a module without the affine step returns an array of the shape of
  the input, normalised in groups of \<open>c div groups\<close> channels of the input, whether or not
  \<open>c\<close> is the configured channel count.
\<close>

theorem GroupNorm_call_uses_input_channels:
  "GroupNorm_call (m\<lparr>gn_channels := ch\<rparr>) x key = GroupNorm_call m x key
   \<and> (wf_array x \<and> shape x = c # rest \<and> 0 < gn_groups m \<and> int c mod gn_groups m = 0
        \<and> \<not> gn_channelwise_affine m \<longrightarrow>
      GroupNorm_call m x key =
        Inr \<lparr>shape = shape x,
             data = concat (map (normalise_spec (gn_eps m))
                      (chunks (nat (gn_groups m)) ((c div nat (gn_groups m)) * prod_list rest)
                         (data x)))\<rparr>)"
proof -
  have a: "GroupNorm_call (m\<lparr>gn_channels := ch\<rparr>) x key = GroupNorm_call m x key"
    by (simp add: GroupNorm_call_def GroupNorm_affine_channels split: sum.splits)
  have b: "GroupNorm_call m x key =
        Inr \<lparr>shape = shape x,
             data = concat (map (normalise_spec (gn_eps m))
                      (chunks (nat (gn_groups m)) ((c div nat (gn_groups m)) * prod_list rest)
                         (data x)))\<rparr>"
    if "wf_array x" "shape x = c # rest" "0 < gn_groups m" "int c mod gn_groups m = 0"
       "\<not> gn_channelwise_affine m"
    using GroupNorm_normalised_rows [OF that(1-4), of "gn_eps m"] that(5)
    by (simp add: GroupNorm_call_def GroupNorm_affine_def normalise_row_spec [abs_def])
  show ?thesis by (simp add: a b)
qed

theorem GroupNorm_call_uses_input_channels_witness:
  "GroupNorm_init 2 (Some 6) 0 False =
     Inr \<lparr>gn_groups = 2, gn_channels = Some 6, gn_eps = 0, gn_channelwise_affine = False,
          gn_weight = None, gn_bias = None\<rparr>
   \<and> GroupNorm_call \<lparr>gn_groups = 2, gn_channels = Some 6, gn_eps = 0,
                     gn_channelwise_affine = False, gn_weight = None, gn_bias = None\<rparr>
       \<lparr>shape = [4], data = [1, 3, 10, 30]\<rparr> None
     = Inr \<lparr>shape = [4], data = [Some (- 1), Some 1, Some (- 1), Some 1]\<rparr>"
  using GroupNorm_call_uses_input_channels [where x = "\<lparr>shape = [4], data = [1, 3, 10, 30]\<rparr>"
      and c = 4 and rest = "[]" and key = None and ch = None
      and m = "\<lparr>gn_groups = 2, gn_channels = Some 6, gn_eps = 0,
                     gn_channelwise_affine = False, gn_weight = None, gn_bias = None\<rparr>"]
  by (simp add: wf_array_def GroupNorm_init_def py_mod_def normalise_spec_def pop_mean_def
      pop_variance_def)

end
